theory Spec2Isabelle
  imports Complex_Main "HOL-Library.AList"
begin

section \<open>The objects of the game: sprites and the window\<close>

text \<open>
  The game script \<^verbatim>\<open>sideshot.py\<close> moves objects of the engine's class \<^verbatim>\<open>Sprite\<close>.
  A sprite is a mutable object; the model gives it an identity (\<open>ident\<close>, the object's
  address) and the attributes the two source files read or write. Python's numbers are
  modelled as exact rationals, so \<^verbatim>\<open>self.height/2\<close> is the exact half. A texture is
  represented by the slot that the texture atlas hands out for it; \<open>None\<close> is a sprite
  without a texture.
\<close>

datatype MoveEnum = NONE | UP | DOWN | LEFT | RIGHT

record sprite =
  ident :: nat
  center_x :: rat
  center_y :: rat
  width :: rat
  height :: rat
  angle :: rat
  color :: "nat \<times> nat \<times> nat"
  alpha :: nat
  texture :: "nat option"
  change_x :: rat
  change_y :: rat
  change_angle :: rat

text \<open>
  \<^verbatim>\<open>class MinimalSprite(arcade.Sprite)\<close> adds the attribute \<^verbatim>\<open>speed\<close>; its reference to
  the window is passed to \<open>move\<close> as an argument.
\<close>

record MinimalSprite = sprite +
  speed :: rat

text \<open>\<^verbatim>\<open>arcade.Window\<close> as far as the script reads it: the size of the window.\<close>

record window =
  win_width :: int
  win_height :: int

text \<open>
  The edges of a sprite are properties of the engine's \<^verbatim>\<open>Sprite\<close> class, which is not
  among the sources. They are taken here for the unrotated rectangular hit box: an edge
  is the centre plus or minus half the extent, and assigning to an edge shifts the centre
  by the difference.
\<close>

definition sprite_left :: "'a sprite_scheme \<Rightarrow> rat" where
  "sprite_left s = center_x s - width s / 2"

definition sprite_right :: "'a sprite_scheme \<Rightarrow> rat" where
  "sprite_right s = center_x s + width s / 2"

definition sprite_bottom :: "'a sprite_scheme \<Rightarrow> rat" where
  "sprite_bottom s = center_y s - height s / 2"

definition sprite_top :: "'a sprite_scheme \<Rightarrow> rat" where
  "sprite_top s = center_y s + height s / 2"

definition set_left :: "rat \<Rightarrow> 'a sprite_scheme \<Rightarrow> 'a sprite_scheme" where
  "set_left amount s = s\<lparr>center_x := center_x s + (amount - sprite_left s)\<rparr>"

definition set_bottom :: "rat \<Rightarrow> 'a sprite_scheme \<Rightarrow> 'a sprite_scheme" where
  "set_bottom amount s = s\<lparr>center_y := center_y s + (amount - sprite_bottom s)\<rparr>"

subsection \<open>MinimalSprite.slide, slide2 and move\<close>

definition slide :: "MoveEnum \<Rightarrow> MinimalSprite \<Rightarrow> MinimalSprite" where
  "slide direction self =
     (let self = self\<lparr>speed := 0\<rparr>;
          self = self\<lparr>center_x := center_x self - 5\<rparr>
      in if sprite_right self = 0 then set_left 1000 self else self)"

definition slide2 :: "MoveEnum \<Rightarrow> MinimalSprite \<Rightarrow> MinimalSprite" where
  "slide2 direction self =
     (let self = self\<lparr>speed := 0\<rparr>;
          self = self\<lparr>center_x := center_x self - 5\<rparr>
      in if sprite_right self = 0 then set_left 1000 self else self)"

definition move :: "'w window_scheme \<Rightarrow> MoveEnum \<Rightarrow> MinimalSprite \<Rightarrow> MinimalSprite" where
  "move game direction self =
     (if direction = UP \<and> \<not> center_y self + height self / 2 > of_int (win_height game)
        then self\<lparr>center_y := center_y self + speed self\<rparr>
      else if direction = DOWN \<and> \<not> center_y self - height self / 2 < 0
        then self\<lparr>center_y := center_y self - speed self\<rparr>
      else if direction = LEFT \<and> \<not> center_x self - width self / 2 < 0
        then self\<lparr>center_x := center_x self - speed self\<rparr>
      else if direction = RIGHT \<and> \<not> center_x self + width self / 2 > of_int (win_width game)
        then self\<lparr>center_x := center_x self + speed self\<rparr>
      else self)"

text \<open>The bounding box of a sprite lies within the window.\<close>

definition in_window :: "'w window_scheme \<Rightarrow> 'a sprite_scheme \<Rightarrow> bool" where
  "in_window game s \<longleftrightarrow>
     center_x s - width s / 2 \<ge> 0 \<and> center_x s + width s / 2 \<le> of_int (win_width game) \<and>
     center_y s - height s / 2 \<ge> 0 \<and> center_y s + height s / 2 \<le> of_int (win_height game)"

text \<open>The player's ship as \<open>setup\<close> creates it (speed 3), here 20 by 20 and touching the
  top edge of the 1000 by 500 window.\<close>

definition ship_at_top :: MinimalSprite where
  "ship_at_top = \<lparr>ident = 0, center_x = 300, center_y = 490, width = 20, height = 20,
     angle = 0, color = (255, 255, 255), alpha = 255, texture = Some 0,
     change_x = 0, change_y = 0, change_angle = 0, speed = 3\<rparr>"

definition default_window :: window where
  "default_window = \<lparr>win_width = 1000, win_height = 500\<rparr>"

section \<open>The engine's sprite list (\<^verbatim>\<open>arcade/sprite_list/sprite_list.py\<close>)\<close>

text \<open>
  A \<^verbatim>\<open>SpriteList\<close> holds references to sprites, so its lists and its dictionary hold
  the sprites' identities. An operation mutates the list object in place and may raise
  part of the way through; the model returns the exception, if any, together with the
  state the object is left in.
\<close>

datatype exn =
    ValueError string
  | IndexError
  | KeyError
  | AttributeError
  | TypeError
  | ZeroDivisionError
  | RuntimeError string
  | Exception string

type_synonym 's raising = "exn option \<times> 's"

definition and_then :: "'s raising \<Rightarrow> ('s \<Rightarrow> 's raising) \<Rightarrow> 's raising" where
  "and_then r f = (case r of (None, s) \<Rightarrow> f s | (Some e, s) \<Rightarrow> (Some e, s))"

subsection \<open>Python's sequence operations\<close>

text \<open>Item access \<^verbatim>\<open>xs[i]\<close>: a negative index counts from the end, \<open>None\<close> is IndexError.\<close>

definition py_index :: "int \<Rightarrow> nat \<Rightarrow> nat option" where
  "py_index i n =
     (let j = (if i < 0 then i + int n else i)
      in if 0 \<le> j \<and> j < int n then Some (nat j) else None)"

text \<open>\<^verbatim>\<open>xs.insert(i, x)\<close> of a list or an array: the position is clamped to the sequence.\<close>

definition py_insert :: "int \<Rightarrow> 'a \<Rightarrow> 'a list \<Rightarrow> 'a list" where
  "py_insert i x xs =
     (let n = int (length xs);
          j = (if i < 0 then max 0 (i + n) else min i n)
      in take (nat j) xs @ x # drop (nat j) xs)"

text \<open>\<^verbatim>\<open>xs.index(x)\<close>: the position of the first occurrence (the caller checks membership).\<close>

fun first_index :: "'a list \<Rightarrow> 'a \<Rightarrow> nat" where
  "first_index [] x = 0"
| "first_index (y # ys) x = (if y = x then 0 else Suc (first_index ys x))"

subsection \<open>The state of a sprite list\<close>

text \<open>
  The fields are those of \<^verbatim>\<open>SpriteList.__init__\<close>, without the leading underscore. Left
  out are the GPU objects (context, program, buffers, geometry, atlas), of which only
  \<open>ctx\<close> records that the context has been obtained, the six \<^verbatim>\<open>_changed\<close> flags that
  schedule uploads in \<^verbatim>\<open>draw\<close>, and the movement statistics.

  \<open>registered\<close> holds the sprites whose own \<^verbatim>\<open>sprite_lists\<close> attribute contains this list
  (\<^verbatim>\<open>register_sprite_list\<close> appends to it, \<^verbatim>\<open>sprite.sprite_lists.remove(self)\<close> takes one
  entry out and raises ValueError when there is none).

  Modelled from the spec: the spatial index (class \<^verbatim>\<open>_SpatialHash\<close>) is not among the
  sources. The spec calls it a spatial index for collision queries over the entities;
  it is represented by the sprites it indexes, \<^verbatim>\<open>insert_object_for_box\<close> adding one and
  \<^verbatim>\<open>remove_object\<close> taking one out. \<open>None\<close> is \<^verbatim>\<open>self.spatial_hash = None\<close>; an existing
  index is a plain object and so always true in \<^verbatim>\<open>if self.spatial_hash\<close>.
\<close>

record SpriteList =
  initialized :: bool
  ctx :: bool
  buf_capacity :: nat
  idx_capacity :: nat
  sprite_buffer_slots :: nat
  sprite_index_slots :: int
  sprite_buffer_free_slots :: "nat list"
  deferred_sprites :: "nat list option"
  sprite_list :: "nat list"
  sprite_slot :: "(nat \<times> nat) list"
  registered :: "nat list"
  sprite_pos_data :: "rat list"
  sprite_size_data :: "rat list"
  sprite_angle_data :: "rat list"
  sprite_color_data :: "nat list"
  sprite_texture_data :: "rat list"
  sprite_index_data :: "nat list"
  spatial_hash :: "nat list option"
  use_spatial_hash :: "bool option"

text \<open>Item assignment \<^verbatim>\<open>self._data[i] = v\<close> on one of the arrays.\<close>

definition array_set ::
  "(SpriteList \<Rightarrow> 'a list) \<Rightarrow> (('a list \<Rightarrow> 'a list) \<Rightarrow> SpriteList \<Rightarrow> SpriteList) \<Rightarrow>
   int \<Rightarrow> 'a \<Rightarrow> SpriteList \<Rightarrow> SpriteList raising" where
  "array_set get upd i v s =
     (case py_index i (length (get s)) of
        None \<Rightarrow> (Some IndexError, s)
      | Some j \<Rightarrow> (None, upd (\<lambda>xs. xs[j := v]) s))"

definition insert_object_for_box :: "nat \<Rightarrow> SpriteList \<Rightarrow> SpriteList" where
  "insert_object_for_box sprite s =
     (case spatial_hash s of
        None \<Rightarrow> s
      | Some h \<Rightarrow> s\<lparr>spatial_hash := Some (h @ [sprite])\<rparr>)"

definition remove_object :: "nat \<Rightarrow> SpriteList \<Rightarrow> SpriteList" where
  "remove_object sprite s =
     (case spatial_hash s of
        None \<Rightarrow> s
      | Some h \<Rightarrow> s\<lparr>spatial_hash := Some (remove1 sprite h)\<rparr>)"

subsection \<open>Growing the buffers and allocating slots\<close>

definition grow_sprite_buffers :: "SpriteList \<Rightarrow> SpriteList" where
  "grow_sprite_buffers s =
     (if sprite_buffer_slots s < buf_capacity s then s
      else let extend_by = buf_capacity s in
        s\<lparr>buf_capacity := buf_capacity s * 2,
          sprite_pos_data := sprite_pos_data s @ replicate (extend_by * 2) 0,
          sprite_size_data := sprite_size_data s @ replicate (extend_by * 2) 0,
          sprite_angle_data := sprite_angle_data s @ replicate extend_by 0,
          sprite_color_data := sprite_color_data s @ replicate (extend_by * 4) 0,
          sprite_texture_data := sprite_texture_data s @ replicate extend_by 0\<rparr>)"

text \<open>The debug line of \<^verbatim>\<open>_grow_index_buffer\<close> divides by the number of buffer slots.\<close>

definition grow_index_buffer :: "SpriteList \<Rightarrow> SpriteList raising" where
  "grow_index_buffer s =
     (if sprite_index_slots s < int (idx_capacity s) then (None, s)
      else let extend_by = idx_capacity s;
               s = s\<lparr>idx_capacity := idx_capacity s * 2\<rparr>
           in if sprite_buffer_slots s = 0 then (Some ZeroDivisionError, s)
              else (None, s\<lparr>sprite_index_data := sprite_index_data s @ replicate extend_by 0\<rparr>))"

definition next_slot :: "SpriteList \<Rightarrow> nat \<times> SpriteList" where
  "next_slot s =
     (case sprite_buffer_free_slots s of
        slot # rest \<Rightarrow> (slot, s\<lparr>sprite_buffer_free_slots := rest\<rparr>)
      | [] \<Rightarrow>
          (let buff_slot = sprite_buffer_slots s
           in (buff_slot, grow_sprite_buffers (s\<lparr>sprite_buffer_slots := sprite_buffer_slots s + 1\<rparr>))))"

subsection \<open>Writing a sprite's data into the arrays\<close>

definition write_texture :: "'a sprite_scheme \<Rightarrow> SpriteList \<Rightarrow> SpriteList raising" where
  "write_texture sprite s =
     (case texture sprite of
        None \<Rightarrow> (None, s)
      | Some tex_slot \<Rightarrow>
          (case map_of (sprite_slot s) (ident sprite) of
             None \<Rightarrow> (Some KeyError, s)
           | Some slot \<Rightarrow>
               array_set sprite_texture_data sprite_texture_data_update (int slot) (of_nat tex_slot) s))"

definition defer_sprite :: "nat \<Rightarrow> SpriteList \<Rightarrow> SpriteList raising" where
  "defer_sprite sprite s =
     (case deferred_sprites s of
        None \<Rightarrow> (Some AttributeError, s)
      | Some d \<Rightarrow> (None, s\<lparr>deferred_sprites := Some (List.insert sprite d)\<rparr>))"

definition update_all :: "'a sprite_scheme \<Rightarrow> SpriteList \<Rightarrow> SpriteList raising" where
  "update_all sprite s =
     (case map_of (sprite_slot s) (ident sprite) of
        None \<Rightarrow> (Some KeyError, s)
      | Some slot \<Rightarrow>
          and_then (array_set sprite_pos_data sprite_pos_data_update (int (slot * 2)) (center_x sprite) s) (\<lambda>s.
          and_then (array_set sprite_pos_data sprite_pos_data_update (int (slot * 2 + 1)) (center_y sprite) s) (\<lambda>s.
          and_then (array_set sprite_size_data sprite_size_data_update (int (slot * 2)) (width sprite) s) (\<lambda>s.
          and_then (array_set sprite_size_data sprite_size_data_update (int (slot * 2 + 1)) (height sprite) s) (\<lambda>s.
          and_then (array_set sprite_angle_data sprite_angle_data_update (int slot) (angle sprite) s) (\<lambda>s.
          and_then (array_set sprite_color_data sprite_color_data_update (int (slot * 4)) (fst (color sprite)) s) (\<lambda>s.
          and_then (array_set sprite_color_data sprite_color_data_update (int (slot * 4 + 1)) (fst (snd (color sprite))) s) (\<lambda>s.
          and_then (array_set sprite_color_data sprite_color_data_update (int (slot * 4 + 2)) (snd (snd (color sprite))) s) (\<lambda>s.
          and_then (array_set sprite_color_data sprite_color_data_update (int (slot * 4 + 3)) (alpha sprite) s) (\<lambda>s.
            if \<not> initialized s then defer_sprite (ident sprite) s
            else write_texture sprite s))))))))))"

definition update_texture :: "'a sprite_scheme \<Rightarrow> SpriteList \<Rightarrow> SpriteList raising" where
  "update_texture sprite s =
     (if \<not> initialized s then defer_sprite (ident sprite) s
      else case texture sprite of
        None \<Rightarrow> (None, s)
      | Some tex_slot \<Rightarrow>
          (case map_of (sprite_slot s) (ident sprite) of
             None \<Rightarrow> (Some KeyError, s)
           | Some slot \<Rightarrow>
               and_then (array_set sprite_texture_data sprite_texture_data_update (int slot) (of_nat tex_slot) s) (\<lambda>s.
               and_then (array_set sprite_size_data sprite_size_data_update (int (slot * 2)) (width sprite) s) (\<lambda>s.
                 array_set sprite_size_data sprite_size_data_update (int (slot * 2 + 1)) (height sprite) s))))"

subsection \<open>append, remove, insert, pop and item replacement\<close>

definition SpriteList_append :: "'a sprite_scheme \<Rightarrow> SpriteList \<Rightarrow> SpriteList raising" where
  "SpriteList_append sprite s =
     (if map_of (sprite_slot s) (ident sprite) \<noteq> None
        then (Some (ValueError ''Sprite already in SpriteList''), s)
      else case next_slot s of (slot, s) \<Rightarrow>
        let s = s\<lparr>sprite_slot := AList.update (ident sprite) slot (sprite_slot s)\<rparr>;
            s = s\<lparr>sprite_list := sprite_list s @ [ident sprite]\<rparr>;
            s = s\<lparr>registered := registered s @ [ident sprite]\<rparr>
        in and_then (update_all sprite s) (\<lambda>s.
             let idx_slot = sprite_index_slots s;
                 s = s\<lparr>sprite_index_slots := sprite_index_slots s + 1\<rparr>
             in and_then (grow_index_buffer s) (\<lambda>s.
                and_then (array_set sprite_index_data sprite_index_data_update idx_slot slot s) (\<lambda>s.
                  (None, insert_object_for_box (ident sprite) s)))))"

definition SpriteList_remove :: "nat \<Rightarrow> SpriteList \<Rightarrow> SpriteList raising" where
  "SpriteList_remove sprite s =
     (case map_of (sprite_slot s) sprite of
        None \<Rightarrow> (Some (ValueError ''Sprite is not in the SpriteList''), s)
      | Some slot \<Rightarrow>
          if sprite \<notin> set (sprite_list s) then (Some (ValueError ''list.remove(x): x not in list''), s)
          else let s = s\<lparr>sprite_list := remove1 sprite (sprite_list s)\<rparr> in
          if sprite \<notin> set (registered s) then (Some (ValueError ''list.remove(x): x not in list''), s)
          else let s = s\<lparr>registered := remove1 sprite (registered s)\<rparr>;
                   s = s\<lparr>sprite_slot := AList.delete sprite (sprite_slot s)\<rparr>;
                   s = s\<lparr>sprite_buffer_free_slots := sprite_buffer_free_slots s @ [slot]\<rparr> in
          if slot \<notin> set (sprite_index_data s) then (Some (ValueError ''array.remove(x): x not in list''), s)
          else let s = s\<lparr>sprite_index_data := remove1 slot (sprite_index_data s)\<rparr>;
                   s = s\<lparr>sprite_index_data := sprite_index_data s @ [0]\<rparr>;
                   s = s\<lparr>sprite_index_slots := sprite_index_slots s - 1\<rparr>
               in (None, remove_object sprite s))"

definition SpriteList_insert :: "int \<Rightarrow> 'a sprite_scheme \<Rightarrow> SpriteList \<Rightarrow> SpriteList raising" where
  "SpriteList_insert index sprite s =
     (if ident sprite \<in> set (sprite_list s)
        then (Some (ValueError ''Sprite is already in list''), s)
      else let s = s\<lparr>sprite_list := py_insert index (ident sprite) (sprite_list s)\<rparr>;
               s = s\<lparr>registered := registered s @ [ident sprite]\<rparr>
           in case next_slot s of (slot, s) \<Rightarrow>
             let s = s\<lparr>sprite_slot := AList.update (ident sprite) slot (sprite_slot s)\<rparr>
             in and_then (update_all sprite s) (\<lambda>s.
                  let s = s\<lparr>sprite_index_slots := sprite_index_slots s + 1\<rparr>
                  in and_then (grow_index_buffer s) (\<lambda>s.
                       let s = s\<lparr>sprite_index_data := py_insert index slot (sprite_index_data s)\<rparr>;
                           s = s\<lparr>sprite_index_data := butlast (sprite_index_data s)\<rparr>
                       in (None, insert_object_for_box (ident sprite) s))))"

definition SpriteList_pop :: "int \<Rightarrow> SpriteList \<Rightarrow> (exn + nat) \<times> SpriteList" where
  "SpriteList_pop index s =
     (if length (sprite_list s) = 0 then (Inl (ValueError ''pop from empty list''), s)
      else case py_index index (length (sprite_list s)) of
        None \<Rightarrow> (Inl IndexError, s)
      | Some j \<Rightarrow>
          (let sprite = sprite_list s ! j
           in case SpriteList_remove sprite s of
                (None, s) \<Rightarrow> (Inr sprite, s)
              | (Some e, s) \<Rightarrow> (Inl e, s)))"

definition SpriteList_setitem :: "int \<Rightarrow> 'a sprite_scheme \<Rightarrow> SpriteList \<Rightarrow> SpriteList raising" where
  "SpriteList_setitem index sprite s =
     (if ident sprite \<in> set (sprite_list s)
        then (if int (first_index (sprite_list s) (ident sprite)) = index then (None, s)
              else (Some (Exception ''Sprite is already in the list''), s))
      else case py_index index (length (sprite_list s)) of
        None \<Rightarrow> (Some IndexError, s)
      | Some j \<Rightarrow>
          (let sprite_to_be_removed = sprite_list s ! j in
           if sprite_to_be_removed \<notin> set (registered s)
             then (Some (ValueError ''list.remove(x): x not in list''), s)
           else let s = s\<lparr>registered := remove1 sprite_to_be_removed (registered s)\<rparr>;
                    s = s\<lparr>sprite_list := (sprite_list s)[j := ident sprite]\<rparr>;
                    s = s\<lparr>registered := registered s @ [ident sprite]\<rparr>;
                    s = remove_object sprite_to_be_removed s;
                    s = insert_object_for_box (ident sprite) s
                in case map_of (sprite_slot s) sprite_to_be_removed of
                     None \<Rightarrow> (Some KeyError, s)
                   | Some slot \<Rightarrow>
                       (let s = s\<lparr>sprite_slot := AList.delete sprite_to_be_removed (sprite_slot s)\<rparr>;
                            s = s\<lparr>sprite_slot := AList.update (ident sprite) slot (sprite_slot s)\<rparr>
                        in update_all sprite s)))"

subsection \<open>Construction and deferred initialisation\<close>

text \<open>
  The engine around the list: whether a window is active, and whether the context calls
  of \<^verbatim>\<open>_init_deferred\<close> (program lookup, buffer reservation, geometry) succeed.
  \<^verbatim>\<open>get_window()\<close> raises when there is no window. Every class of \<open>exn\<close> derives from
  Python's \<^verbatim>\<open>Exception\<close>, so the handler \<^verbatim>\<open>except Exception\<close> catches each of them.
\<close>

datatype engine = NoWindow exn | ContextFails exn | Ready

definition get_window :: "engine \<Rightarrow> exn option" where
  "get_window eng = (case eng of NoWindow e \<Rightarrow> Some e | _ \<Rightarrow> None)"

text \<open>The loop of \<^verbatim>\<open>_init_deferred\<close> over the deferred sprites; \<open>heap\<close> dereferences them.\<close>

fun load_deferred :: "(nat \<Rightarrow> 'a sprite_scheme) \<Rightarrow> nat list \<Rightarrow> SpriteList \<Rightarrow> SpriteList raising" where
  "load_deferred heap [] s = (None, s)"
| "load_deferred heap (r # rs) s =
     (case texture (heap r) of
        None \<Rightarrow> (Some (ValueError ''Attempting to use a sprite without a texture''), s)
      | Some t \<Rightarrow> and_then (update_texture (heap r) s) (load_deferred heap rs))"

definition init_deferred :: "engine \<Rightarrow> (nat \<Rightarrow> 'a sprite_scheme) \<Rightarrow> SpriteList \<Rightarrow> SpriteList raising" where
  "init_deferred eng heap s =
     (case get_window eng of
        Some e \<Rightarrow> (Some e, s)
      | None \<Rightarrow>
          (let s = s\<lparr>ctx := True\<rparr>
           in case eng of
                ContextFails e \<Rightarrow> (Some e, s)
              | _ \<Rightarrow>
                  (let s = s\<lparr>initialized := True\<rparr>
                   in case deferred_sprites s of
                        None \<Rightarrow> (Some TypeError, s)
                      | Some d \<Rightarrow>
                          and_then (load_deferred heap d s) (\<lambda>s.
                            (None, s\<lparr>deferred_sprites := None\<rparr>)))))"

text \<open>
  The object as the assignments of \<^verbatim>\<open>__init__\<close> leave it before the \<^verbatim>\<open>try\<close> block.
  The arguments \<^verbatim>\<open>spatial_hash_cell_size\<close>, \<^verbatim>\<open>is_static\<close> and \<^verbatim>\<open>atlas\<close> are stored
  or passed on and read by none of the methods modelled here.
\<close>

definition fresh_SpriteList :: "bool option \<Rightarrow> int \<Rightarrow> SpriteList" where
  "fresh_SpriteList use_spatial capacity =
     (let cap = (if \<bar>capacity\<bar> = 0 then 100 else nat \<bar>capacity\<bar>) in
      \<lparr>initialized = False, ctx = False,
       buf_capacity = cap, idx_capacity = cap,
       sprite_buffer_slots = 0, sprite_index_slots = 0,
       sprite_buffer_free_slots = [],
       deferred_sprites = Some [],
       sprite_list = [], sprite_slot = [], registered = [],
       sprite_pos_data = replicate (cap * 2) 0,
       sprite_size_data = replicate (cap * 2) 0,
       sprite_angle_data = replicate cap 0,
       sprite_color_data = replicate (cap * 4) 0,
       sprite_texture_data = replicate cap 0,
       sprite_index_data = replicate cap 0,
       spatial_hash = (if use_spatial = Some True then Some [] else None),
       use_spatial_hash = use_spatial\<rparr>)"

text \<open>
  \<^verbatim>\<open>__init__\<close> returns what it printed, the exception that leaves the constructor (if
  any) and the object.
\<close>

definition SpriteList_init ::
  "engine \<Rightarrow> (nat \<Rightarrow> 'a sprite_scheme) \<Rightarrow> bool option \<Rightarrow> int \<Rightarrow> exn list \<times> SpriteList raising" where
  "SpriteList_init eng heap use_spatial capacity =
     (let s = fresh_SpriteList use_spatial capacity;
          try = (case get_window eng of
                   Some e \<Rightarrow> (Some e, s)
                 | None \<Rightarrow> init_deferred eng heap s)
      in case try of
           (None, s) \<Rightarrow> ([], (None, s))
         | (Some ex, s) \<Rightarrow> ([ex], (None, s)))"

subsection \<open>Sequences of operations on one list\<close>

datatype op =
    Append sprite
  | Insert int sprite
  | Remove nat
  | Pop int
  | SetItem int sprite

fun run_op :: "op \<Rightarrow> SpriteList \<Rightarrow> SpriteList raising" where
  "run_op (Append sprite) s = SpriteList_append sprite s"
| "run_op (Insert index sprite) s = SpriteList_insert index sprite s"
| "run_op (Remove sprite) s = SpriteList_remove sprite s"
| "run_op (Pop index) s =
     (case SpriteList_pop index s of (Inl e, s) \<Rightarrow> (Some e, s) | (Inr sprite, s) \<Rightarrow> (None, s))"
| "run_op (SetItem index sprite) s = SpriteList_setitem index sprite s"

text \<open>
  A caller runs the operations one after the other on the same object; the object keeps
  the state an operation leaves it in, also when the operation raised.
\<close>

definition run_ops :: "op list \<Rightarrow> SpriteList \<Rightarrow> SpriteList" where
  "run_ops ops s = fold (\<lambda>op s. snd (run_op op s)) ops s"

text \<open>Two sprites for the examples.\<close>

definition sprite_A :: sprite where
  "sprite_A = \<lparr>ident = 0, center_x = 10, center_y = 10, width = 4, height = 4,
     angle = 0, color = (255, 255, 255), alpha = 255, texture = Some 0,
     change_x = 0, change_y = 0, change_angle = 0\<rparr>"

definition sprite_B :: sprite where
  "sprite_B = \<lparr>ident = 1, center_x = 20, center_y = 20, width = 4, height = 4,
     angle = 0, color = (255, 255, 255), alpha = 255, texture = Some 1,
     change_x = 0, change_y = 0, change_angle = 0\<rparr>"

subsection \<open>Invariants of a sprite list\<close>

text \<open>
  The sprite list, the slot dictionary and the index buffer agree on the number of
  sprites, and no two sprites share a buffer slot.
\<close>

definition counts_agree :: "SpriteList \<Rightarrow> bool" where
  "counts_agree s \<longleftrightarrow>
     int (length (sprite_list s)) = int (length (sprite_slot s)) \<and>
     int (length (sprite_slot s)) = sprite_index_slots s \<and>
     distinct (map snd (sprite_slot s))"

text \<open>An existing spatial index holds exactly the sprites of the list.\<close>

definition hash_agrees :: "SpriteList \<Rightarrow> bool" where
  "hash_agrees s \<longleftrightarrow>
     (case spatial_hash s of None \<Rightarrow> True | Some h \<Rightarrow> set h = set (sprite_list s))"

text \<open>The data arrays have the lengths that the capacity prescribes.\<close>

definition buffers_sized :: "SpriteList \<Rightarrow> bool" where
  "buffers_sized s \<longleftrightarrow>
     length (sprite_pos_data s) = 2 * buf_capacity s \<and>
     length (sprite_size_data s) = 2 * buf_capacity s \<and>
     length (sprite_angle_data s) = buf_capacity s \<and>
     length (sprite_texture_data s) = buf_capacity s \<and>
     length (sprite_color_data s) = 4 * buf_capacity s"

text \<open>
  A list made with \<^verbatim>\<open>capacity=1\<close>, and the same list after \<^verbatim>\<open>insert(0, A)\<close> and
  \<^verbatim>\<open>insert(5, B)\<close>.
\<close>

definition small_list :: "bool option \<Rightarrow> SpriteList" where
  "small_list use_spatial = snd (snd (SpriteList_init Ready (\<lambda>r. sprite_A) use_spatial 1))"

definition two_inserts :: "bool option \<Rightarrow> SpriteList" where
  "two_inserts use_spatial =
     run_ops [Insert 0 sprite_A, Insert 5 sprite_B] (small_list use_spatial)"

text \<open>The part of the state that slot allocation works on.\<close>

definition slot_state :: "SpriteList \<Rightarrow> (nat \<times> nat) list \<times> nat list \<times> nat" where
  "slot_state s = (sprite_slot s, sprite_buffer_free_slots s, sprite_buffer_slots s)"

text \<open>
  The small list after \<^verbatim>\<open>append(A)\<close> and \<^verbatim>\<open>append(B)\<close>, and after both sprites have been
  removed again, A first.
\<close>

definition two_appends :: SpriteList where
  "two_appends = run_ops [Append sprite_A, Append sprite_B] (small_list None)"

definition two_freed :: SpriteList where
  "two_freed = run_ops [Remove (ident sprite_A), Remove (ident sprite_B)] two_appends"

section \<open>The game window (\<^verbatim>\<open>class playspace\<close>)\<close>

text \<open>
  The window after \<^verbatim>\<open>setup\<close>, which \<^verbatim>\<open>main\<close> runs before the engine delivers any event:
  the direction, the ship \<open>pict\<close>, the two backgrounds and the list of bullets. The
  bullets are objects that the list refers to; \<open>bullets\<close> maps a reference to the
  object's attributes. The sprite lists that are only drawn are left out, and so is the
  refreshing of a list's data arrays that the engine's attribute setters trigger.
\<close>

record playspace = window +
  direction :: MoveEnum
  pict :: MinimalSprite
  backg :: MinimalSprite
  backg2 :: MinimalSprite
  bullets :: "nat \<Rightarrow> sprite"
  bullet_list :: SpriteList

text \<open>
  \<^verbatim>\<open>Sprite.update\<close> and \<^verbatim>\<open>Sprite.remove_from_sprite_lists\<close> belong to the engine's
  \<^verbatim>\<open>Sprite\<close> class (not among the sources): the first adds the change vector to the
  position and the change of angle to the angle, the second calls \<^verbatim>\<open>remove\<close> on every
  list the sprite is in, here the bullet list.
\<close>

definition sprite_update :: "'a sprite_scheme \<Rightarrow> 'a sprite_scheme" where
  "sprite_update s =
     s\<lparr>center_x := center_x s + change_x s,
       center_y := center_y s + change_y s,
       angle := angle s + change_angle s\<rparr>"

definition remove_from_sprite_lists :: "nat \<Rightarrow> playspace \<Rightarrow> playspace raising" where
  "remove_from_sprite_lists bullet self =
     (let r = SpriteList_remove bullet (bullet_list self)
      in (fst r, self\<lparr>bullet_list := snd r\<rparr>))"

text \<open>\<^verbatim>\<open>SpriteList.update\<close>: \<^verbatim>\<open>update()\<close> on each sprite of the list.\<close>

definition SpriteList_update :: "SpriteList \<Rightarrow> (nat \<Rightarrow> sprite) \<Rightarrow> (nat \<Rightarrow> sprite)" where
  "SpriteList_update l heap = fold (\<lambda>r h. h(r := sprite_update (h r))) (sprite_list l) heap"

text \<open>
  The loop \<^verbatim>\<open>for bullet in self.bullet_list\<close> of \<^verbatim>\<open>on_update\<close>. The iterator of a Python
  list keeps a position \<open>i\<close> into the list, which the body shortens while it runs.
\<close>

function cull :: "nat \<Rightarrow> playspace \<Rightarrow> playspace raising" where
  "cull i self =
     (if i < length (sprite_list (bullet_list self)) then
        (let bullet = sprite_list (bullet_list self) ! i in
         if sprite_bottom (bullets self bullet) > of_int (win_height self)
         then (let r = remove_from_sprite_lists bullet self
               in if fst r = None then cull (i + 1) (snd r) else r)
         else cull (i + 1) self)
      else (None, self))"
  by pat_completeness auto
termination
proof (relation "measure (\<lambda>(i, self). length (sprite_list (bullet_list self)) - i)")
  show "wf (measure (\<lambda>(i, self). length (sprite_list (bullet_list self)) - i))"
    by simp
next
  fix i :: nat and self :: playspace and x r
  assume lt: "i < length (sprite_list (bullet_list self))"
    and x: "x = sprite_list (bullet_list self) ! i"
    and r: "r = remove_from_sprite_lists x self"
  have "length (sprite_list (bullet_list (snd r))) \<le> length (sprite_list (bullet_list self))"
    by (simp add: r remove_from_sprite_lists_def SpriteList_remove_def remove_object_def
        Let_def length_remove1 split: option.splits)
  with lt show "((i + 1, snd r), (i, self))
      \<in> measure (\<lambda>(i, self). length (sprite_list (bullet_list self)) - i)"
    by simp
next
  fix i :: nat and self :: playspace
  assume "i < length (sprite_list (bullet_list self))"
  then show "((i + 1, self), (i, self))
      \<in> measure (\<lambda>(i, self). length (sprite_list (bullet_list self)) - i)"
    by simp
qed

definition on_update :: "playspace \<Rightarrow> playspace raising" where
  "on_update self =
     (let self = self\<lparr>pict := move self (direction self) (pict self)\<rparr>;
          self = self\<lparr>backg := slide (direction self) (backg self)\<rparr>;
          self = self\<lparr>backg2 := slide2 (direction self) (backg2 self)\<rparr>;
          self = self\<lparr>bullets := SpriteList_update (bullet_list self) (bullets self)\<rparr>
      in cull 0 self)"

subsection \<open>The keyboard handlers\<close>

text \<open>
  The key codes \<^verbatim>\<open>arcade.key.UP\<close>, ... are constants of the engine; the handlers take
  them as a parameter. \<open>new_sprite\<close> is the object that the constructor call
  \<^verbatim>\<open>arcade.Sprite(image, SPRITE_SCALING_LASER)\<close> returns.
\<close>

record key_codes =
  key_UP :: int
  key_DOWN :: int
  key_LEFT :: int
  key_RIGHT :: int
  key_W :: int
  key_A :: int
  key_S :: int
  key_D :: int
  key_SPACE :: int

definition BULLET_SPEED :: rat where
  "BULLET_SPEED = 5"

text \<open>The \<^verbatim>\<open>if\<close>/\<^verbatim>\<open>elif\<close> chain of \<^verbatim>\<open>on_key_press\<close> that sets the direction.\<close>

definition steer :: "key_codes \<Rightarrow> int \<Rightarrow> playspace \<Rightarrow> playspace" where
  "steer k key self =
     (if key = key_UP k \<or> key = key_W k then self\<lparr>direction := UP\<rparr>
      else if key = key_DOWN k \<or> key = key_S k then self\<lparr>direction := DOWN\<rparr>
      else if key = key_LEFT k \<or> key = key_A k then self\<lparr>direction := LEFT\<rparr>
      else if key = key_RIGHT k \<or> key = key_D k then self\<lparr>direction := RIGHT\<rparr>
      else self)"

text \<open>The body of \<^verbatim>\<open>if (key == arcade.key.SPACE)\<close>: a bullet is made and appended.\<close>

definition shoot :: "sprite \<Rightarrow> playspace \<Rightarrow> playspace raising" where
  "shoot new_sprite self =
     (let bullet = new_sprite;
          bullet = bullet\<lparr>angle := 0\<rparr>;
          bullet = bullet\<lparr>change_x := BULLET_SPEED\<rparr>;
          bullet = bullet\<lparr>center_y := center_y (pict self) + 30\<rparr>;
          bullet = bullet\<lparr>center_x := center_x (pict self) + 60\<rparr>;
          bullet = set_bottom (sprite_top (pict self)) bullet;
          self = self\<lparr>bullets := (bullets self)(ident bullet := bullet)\<rparr>;
          r = SpriteList_append bullet (bullet_list self)
      in (fst r, self\<lparr>bullet_list := snd r\<rparr>))"

definition on_key_press :: "key_codes \<Rightarrow> sprite \<Rightarrow> int \<Rightarrow> int \<Rightarrow> playspace \<Rightarrow> playspace raising" where
  "on_key_press k new_sprite key modifiers self =
     (let self = steer k key self
      in if key = key_SPACE k then shoot new_sprite self else (None, self))"

definition on_key_release :: "key_codes \<Rightarrow> int \<Rightarrow> int \<Rightarrow> playspace \<Rightarrow> playspace" where
  "on_key_release k key modifiers self =
     (let self = (if (key = key_UP k \<or> key = key_W k) \<and> direction self = UP
                  then self\<lparr>direction := NONE\<rparr> else self);
          self = (if (key = key_DOWN k \<or> key = key_S k) \<and> direction self = DOWN
                  then self\<lparr>direction := NONE\<rparr> else self);
          self = (if (key = key_LEFT k \<or> key = key_A k) \<and> direction self = LEFT
                  then self\<lparr>direction := NONE\<rparr> else self);
          self = (if (key = key_RIGHT k \<or> key = key_D k) \<and> direction self = RIGHT
                  then self\<lparr>direction := NONE\<rparr> else self)
      in self)"

text \<open>The key belongs to the direction: the arrow key or its WASD equivalent.\<close>

definition key_maps_to :: "key_codes \<Rightarrow> int \<Rightarrow> MoveEnum \<Rightarrow> bool" where
  "key_maps_to k key d \<longleftrightarrow>
     (d = UP \<and> (key = key_UP k \<or> key = key_W k)) \<or>
     (d = DOWN \<and> (key = key_DOWN k \<or> key = key_S k)) \<or>
     (d = LEFT \<and> (key = key_LEFT k \<or> key = key_A k)) \<or>
     (d = RIGHT \<and> (key = key_RIGHT k \<or> key = key_D k))"

definition keys_distinct :: "key_codes \<Rightarrow> bool" where
  "keys_distinct k \<longleftrightarrow>
     distinct [key_UP k, key_W k, key_DOWN k, key_S k, key_LEFT k, key_A k, key_RIGHT k, key_D k]"

text \<open>The engine's key codes (those of pyglet).\<close>

definition arcade_key :: key_codes where
  "arcade_key = \<lparr>key_UP = 65362, key_DOWN = 65364, key_LEFT = 65361, key_RIGHT = 65363,
     key_W = 119, key_A = 97, key_S = 115, key_D = 100, key_SPACE = 32\<rparr>"

subsection \<open>A game for the examples\<close>

text \<open>
  The laser image scaled by \<^verbatim>\<open>SPRITE_SCALING_LASER\<close>, as the constructor returns it,
  and the window as \<^verbatim>\<open>setup\<close> leaves it, with the ship 40 by 40. In the second game
  the ship has been steered to the right, 20 short of the right edge.
\<close>

definition laser :: sprite where
  "laser = \<lparr>ident = 7, center_x = 0, center_y = 0, width = 216 / 5, height = 36 / 5,
     angle = 0, color = (255, 255, 255), alpha = 255, texture = Some 0,
     change_x = 0, change_y = 0, change_angle = 0\<rparr>"

definition ship :: MinimalSprite where
  "ship = \<lparr>ident = 1, center_x = 300, center_y = 300, width = 40, height = 40,
     angle = 0, color = (255, 255, 255), alpha = 255, texture = Some 1,
     change_x = 0, change_y = 0, change_angle = 0, speed = 3\<rparr>"

definition game_after_setup :: playspace where
  "game_after_setup =
     \<lparr>win_width = 1000, win_height = 500,
      direction = NONE,
      pict = ship,
      backg = ship\<lparr>ident := 2, center_x := 1000, center_y := 250, width := 1000, height := 500\<rparr>,
      backg2 = ship\<lparr>ident := 3, center_x := 0, center_y := 250, width := 1000, height := 500\<rparr>,
      bullets = (\<lambda>r. laser),
      bullet_list = snd (snd (SpriteList_init Ready (\<lambda>r. laser) None 100))\<rparr>"

definition game_ship_right :: playspace where
  "game_ship_right = game_after_setup\<lparr>pict := ship\<lparr>center_x := 960\<rparr>\<rparr>"

section \<open>Properties of MinimalSprite\<close>

text \<open>
  C8: \<open>slide2\<close> is extensionally equal to \<open>slide\<close>. For every sprite and every direction
  both set the speed to 0, take 5 from \<open>center_x\<close> whatever the direction is, and then put
  the left edge at 1000 exactly when the right edge has reached 0; the final sprites are
  identical.
\<close>

theorem slide2_eq_slide:
  "slide2 d self = slide d self \<and>
   slide d self = slide NONE self \<and>
   speed (slide d self) = 0 \<and>
   center_x (slide d self) =
     (if sprite_right (self\<lparr>center_x := center_x self - 5\<rparr>) = 0
      then center_x self - 5 + (1000 - sprite_left (self\<lparr>center_x := center_x self - 5\<rparr>))
      else center_x self - 5) \<and>
   sprite_left (slide d self) =
     (if sprite_right (self\<lparr>center_x := center_x self - 5\<rparr>) = 0
      then 1000 else sprite_left self - 5) \<and>
   sprite.more (slide d self) = sprite.more (self\<lparr>speed := 0\<rparr>) \<and>
   center_y (slide d self) = center_y self \<and>
   width (slide d self) = width self \<and>
   height (slide d self) = height self"
  by (simp add: slide_def slide2_def Let_def set_left_def sprite_left_def sprite_right_def)

text \<open>
  C1: the claim is that \<open>move\<close> keeps a sprite that is inside the window inside the window.
  The guards of \<open>move\<close> test the position before the step, so a sprite that touches an
  edge still takes a full step across it: the ship at the top edge moves up by its speed
  and its box ends 3 above the window.
\<close>

theorem move_leaves_window:
  "in_window default_window ship_at_top \<and>
   \<not> in_window default_window (move default_window UP ship_at_top) \<and>
   center_y (move default_window UP ship_at_top) + height (move default_window UP ship_at_top) / 2 = 503"
  by (simp add: move_def in_window_def ship_at_top_def default_window_def)

section \<open>Properties of the game window\<close>

lemma direction_shoot: "direction (snd (shoot new_sprite self)) = direction self"
  by (simp add: shoot_def Let_def)

lemma direction_on_key_press:
  "direction (snd (on_key_press k new_sprite key modifiers self)) = direction (steer k key self)"
  by (simp add: on_key_press_def Let_def direction_shoot)

lemma keys_nth_neq:
  assumes "keys_distinct k" and "i < 8" and "j < 8" and "i \<noteq> j"
  shows "[key_UP k, key_W k, key_DOWN k, key_S k, key_LEFT k, key_A k, key_RIGHT k, key_D k] ! i
       \<noteq> [key_UP k, key_W k, key_DOWN k, key_S k, key_LEFT k, key_A k, key_RIGHT k, key_D k] ! j"
  using nth_eq_iff_index_eq [OF assms(1) [unfolded keys_distinct_def], of i j] assms(2-)
  by simp

lemma on_key_press_mapped:
  assumes "keys_distinct k" and "key_maps_to k key d"
  shows "direction (snd (on_key_press k new_sprite key modifiers self)) = d"
proof -
  note n = keys_nth_neq [OF assms(1)]
  note N = n [of 2 0, simplified] n [of 2 1, simplified] n [of 3 0, simplified] n [of 3 1, simplified]
    n [of 4 0, simplified] n [of 4 1, simplified] n [of 4 2, simplified] n [of 4 3, simplified]
    n [of 5 0, simplified] n [of 5 1, simplified] n [of 5 2, simplified] n [of 5 3, simplified]
    n [of 6 0, simplified] n [of 6 1, simplified] n [of 6 2, simplified] n [of 6 3, simplified]
    n [of 6 4, simplified] n [of 6 5, simplified]
    n [of 7 0, simplified] n [of 7 1, simplified] n [of 7 2, simplified] n [of 7 3, simplified]
    n [of 7 4, simplified] n [of 7 5, simplified]
  from assms(2) show ?thesis
    unfolding key_maps_to_def direction_on_key_press steer_def
    by (elim disjE conjE) (simp_all add: N)
qed

lemma on_key_press_unmapped:
  assumes "\<forall>d. \<not> key_maps_to k key d"
  shows "direction (snd (on_key_press k new_sprite key modifiers self)) = direction self"
proof -
  have "\<not> key_maps_to k key UP" "\<not> key_maps_to k key DOWN"
    "\<not> key_maps_to k key LEFT" "\<not> key_maps_to k key RIGHT"
    using assms by blast+
  then show ?thesis
    unfolding direction_on_key_press key_maps_to_def steer_def by simp
qed

lemma on_key_release_eq:
  "on_key_release k key modifiers self =
     (if key_maps_to k key (direction self) then self\<lparr>direction := NONE\<rparr> else self)"
  by (cases "direction self") (simp_all add: on_key_release_def key_maps_to_def Let_def)

text \<open>
  C3: the direction is driven by the keyboard handlers. With the eight direction keys
  pairwise distinct, a press of an arrow key or of its WASD equivalent sets the direction
  to the value the key belongs to, and a press of any other key leaves it as it is. A
  release sets the direction to \<open>NONE\<close> exactly when the released key belongs to the stored
  direction, and changes nothing of the window otherwise.
\<close>

theorem key_handlers_drive_direction:
  "(keys_distinct k \<longrightarrow> key_maps_to k key d \<longrightarrow>
      direction (snd (on_key_press k new_sprite key modifiers self)) = d) \<and>
   ((\<forall>d. \<not> key_maps_to k key d) \<longrightarrow>
      direction (snd (on_key_press k new_sprite key modifiers self)) = direction self) \<and>
   on_key_release k key modifiers self =
     (if key_maps_to k key (direction self) then self\<lparr>direction := NONE\<rparr> else self)"
  using on_key_press_mapped [of k key d new_sprite modifiers self]
    on_key_press_unmapped [of k key new_sprite modifiers self]
    on_key_release_eq [of k key modifiers self]
  by blast

theorem key_handlers_drive_direction_witness:
  "keys_distinct arcade_key \<and> key_maps_to arcade_key (key_W arcade_key) UP \<and>
   direction (snd (on_key_press arcade_key laser (key_W arcade_key) 0 game_after_setup)) = UP \<and>
   (\<forall>d. \<not> key_maps_to arcade_key (key_SPACE arcade_key) d) \<and>
   direction (snd (on_key_press arcade_key laser (key_SPACE arcade_key) 0 game_after_setup))
     = direction game_after_setup \<and>
   on_key_release arcade_key (key_W arcade_key) 0 (game_after_setup\<lparr>direction := UP\<rparr>)
     = game_after_setup\<lparr>direction := NONE\<rparr>"
proof -
  have d: "keys_distinct arcade_key"
    by (simp add: keys_distinct_def arcade_key_def)
  have m: "key_maps_to arcade_key (key_W arcade_key) UP"
    by (simp add: key_maps_to_def)
  have u: "\<forall>d. \<not> key_maps_to arcade_key (key_SPACE arcade_key) d"
    by (simp add: key_maps_to_def arcade_key_def)
  have r: "key_maps_to arcade_key (key_W arcade_key) (direction (game_after_setup\<lparr>direction := UP\<rparr>))"
    by (simp add: key_maps_to_def)
  show ?thesis
    using d m u r
      key_handlers_drive_direction [of arcade_key "key_W arcade_key" UP laser 0 game_after_setup]
      key_handlers_drive_direction [of arcade_key "key_SPACE arcade_key" UP laser 0 game_after_setup]
      key_handlers_drive_direction [of arcade_key "key_W arcade_key" UP laser 0
        "game_after_setup\<lparr>direction := UP\<rparr>"]
    by simp
qed

text \<open>
  C2: the claim is that after \<open>on_update\<close> no bullet that is off the screen remains in
  the bullet list. The loop removes a bullet only when its bottom is above the top of the
  window, while the bullets fly to the right: the bullet fired from the ship near the
  right edge is wholly past the right edge after one update and stays in the list.
\<close>

theorem bullet_past_right_edge_is_kept:
  "let fired = snd (on_key_press arcade_key laser (key_SPACE arcade_key) 0 game_ship_right);
       after = snd (on_update fired)
   in fst (on_update fired) = None \<and>
      sprite_list (bullet_list after) = [ident laser] \<and>
      sprite_left (bullets after (ident laser)) > of_int (win_width after) \<and>
      \<not> sprite_bottom (bullets after (ident laser)) > of_int (win_height after)"
  by code_simp

section \<open>Properties of the sprite list\<close>

subsection \<open>Steps that leave the array sizes and the slot allocation alone\<close>


lemma snd_and_then:
  "(\<And>s. P (snd (f s)) = P s) \<Longrightarrow> P (snd (and_then r f)) = P (snd r)"
  by (cases r; cases "fst r") (simp_all add: and_then_def)

lemmas bs_and_then = snd_and_then [where P = buffers_sized]

lemma bs_array_set:
  "buffers_sized (snd (array_set sprite_pos_data sprite_pos_data_update i x s)) = buffers_sized s"
  "buffers_sized (snd (array_set sprite_size_data sprite_size_data_update i x s)) = buffers_sized s"
  "buffers_sized (snd (array_set sprite_angle_data sprite_angle_data_update i x s)) = buffers_sized s"
  "buffers_sized (snd (array_set sprite_color_data sprite_color_data_update i c s)) = buffers_sized s"
  "buffers_sized (snd (array_set sprite_texture_data sprite_texture_data_update i x s)) = buffers_sized s"
  "buffers_sized (snd (array_set sprite_index_data sprite_index_data_update i c s)) = buffers_sized s"
  by (simp_all add: array_set_def buffers_sized_def split: option.split)

lemma bs_defer: "buffers_sized (snd (defer_sprite r s)) = buffers_sized s"
  by (simp add: defer_sprite_def buffers_sized_def split: option.split)

lemma bs_write_texture: "buffers_sized (snd (write_texture sprite s)) = buffers_sized s"
  by (simp add: write_texture_def bs_array_set split: option.split)

lemma bs_update_all: "buffers_sized (snd (update_all sprite s)) = buffers_sized s"
  by (simp add: update_all_def bs_and_then bs_array_set bs_defer bs_write_texture split: option.split)

lemma bs_update_texture: "buffers_sized (snd (update_texture sprite s)) = buffers_sized s"
  by (simp add: update_texture_def bs_and_then bs_array_set bs_defer split: option.split)

lemma bs_grow: "buffers_sized (grow_sprite_buffers s) = buffers_sized s"
  by (auto simp add: grow_sprite_buffers_def buffers_sized_def Let_def)

lemma bs_grow_index: "buffers_sized (snd (grow_index_buffer s)) = buffers_sized s"
  by (simp add: grow_index_buffer_def buffers_sized_def Let_def)

lemma bs_fields:
  "buffers_sized (sprite_buffer_free_slots_update f1 s) = buffers_sized s"
  "buffers_sized (sprite_buffer_slots_update f2 s) = buffers_sized s"
  "buffers_sized (sprite_slot_update f3 s) = buffers_sized s"
  "buffers_sized (sprite_list_update f4 s) = buffers_sized s"
  "buffers_sized (registered_update f5 s) = buffers_sized s"
  "buffers_sized (sprite_index_slots_update f6 s) = buffers_sized s"
  "buffers_sized (sprite_index_data_update f7 s) = buffers_sized s"
  "buffers_sized (spatial_hash_update f8 s) = buffers_sized s"
  "buffers_sized (deferred_sprites_update f9 s) = buffers_sized s"
  "buffers_sized (initialized_update g1 s) = buffers_sized s"
  "buffers_sized (ctx_update g2 s) = buffers_sized s"
  "buffers_sized (idx_capacity_update g3 s) = buffers_sized s"
  by (simp_all add: buffers_sized_def)

lemma bs_next_slot: "buffers_sized (snd (next_slot s)) = buffers_sized s"
  by (simp add: next_slot_def bs_grow bs_fields Let_def split: list.split)

lemma bs_hash:
  "buffers_sized (insert_object_for_box r s) = buffers_sized s"
  "buffers_sized (remove_object r s) = buffers_sized s"
  by (simp_all add: insert_object_for_box_def remove_object_def bs_fields split: option.split)

lemma bs_append: "buffers_sized (snd (SpriteList_append sprite s)) = buffers_sized s"
  by (simp add: SpriteList_append_def case_prod_beta Let_def bs_and_then bs_update_all
      bs_grow_index bs_array_set bs_hash bs_fields bs_next_slot)

lemma bs_insert: "buffers_sized (snd (SpriteList_insert index sprite s)) = buffers_sized s"
  by (simp add: SpriteList_insert_def case_prod_beta Let_def bs_and_then bs_update_all
      bs_grow_index bs_array_set bs_hash bs_fields bs_next_slot)

lemma bs_remove: "buffers_sized (snd (SpriteList_remove r s)) = buffers_sized s"
  by (simp add: SpriteList_remove_def Let_def bs_hash bs_fields split: option.split)

lemma bs_pop: "buffers_sized (snd (SpriteList_pop index s)) = buffers_sized s"
  using bs_remove [of "sprite_list s ! the (py_index index (length (sprite_list s)))" s]
  by (auto simp add: SpriteList_pop_def Let_def split: option.split prod.split)

lemma bs_setitem: "buffers_sized (snd (SpriteList_setitem index sprite s)) = buffers_sized s"
  by (simp add: SpriteList_setitem_def Let_def bs_update_all bs_hash bs_fields split: option.split)

lemma snd_run_op_Pop: "snd (run_op (Pop index) s) = snd (SpriteList_pop index s)"
  by (simp split: prod.split sum.split)

lemma bs_run_op: "buffers_sized (snd (run_op op s)) = buffers_sized s"
  by (cases op)
    (simp_all add: snd_run_op_Pop bs_append bs_insert bs_remove bs_pop bs_setitem
      del: run_op.simps(4))

lemma bs_run_ops: "buffers_sized (run_ops ops s) = buffers_sized s"
  unfolding run_ops_def by (induction ops arbitrary: s) (simp_all add: bs_run_op)

lemma bs_load_deferred: "buffers_sized (snd (load_deferred heap rs s)) = buffers_sized s"
  by (induction rs arbitrary: s) (simp_all add: bs_and_then bs_update_texture split: option.split)

lemma bs_init_deferred: "buffers_sized (snd (init_deferred eng heap s)) = buffers_sized s"
  by (simp add: init_deferred_def Let_def bs_and_then bs_load_deferred bs_fields
      split: option.split engine.split)

lemma bs_fresh: "buffers_sized (fresh_SpriteList use_spatial capacity)"
  by (simp add: fresh_SpriteList_def buffers_sized_def Let_def)

lemma bs_init: "buffers_sized (snd (snd (SpriteList_init eng heap use_spatial capacity)))"
  using bs_fresh [of use_spatial capacity]
    bs_init_deferred [of eng heap "fresh_SpriteList use_spatial capacity"]
  by (auto simp add: SpriteList_init_def Let_def split: option.split prod.split)




lemma ss_and_then: "(\<And>s. slot_state (snd (f s)) = slot_state s) \<Longrightarrow>
   slot_state (snd (and_then r f)) = slot_state (snd r)"
  by (cases r; cases "fst r") (simp_all add: and_then_def)

lemma ss_array_set:
  "slot_state (snd (array_set sprite_pos_data sprite_pos_data_update i x s)) = slot_state s"
  "slot_state (snd (array_set sprite_size_data sprite_size_data_update i x s)) = slot_state s"
  "slot_state (snd (array_set sprite_angle_data sprite_angle_data_update i x s)) = slot_state s"
  "slot_state (snd (array_set sprite_color_data sprite_color_data_update i c s)) = slot_state s"
  "slot_state (snd (array_set sprite_texture_data sprite_texture_data_update i x s)) = slot_state s"
  "slot_state (snd (array_set sprite_index_data sprite_index_data_update i c s)) = slot_state s"
  by (simp_all add: array_set_def slot_state_def split: option.split)

lemma ss_fields:
  "slot_state (sprite_list_update f4 s) = slot_state s"
  "slot_state (registered_update f5 s) = slot_state s"
  "slot_state (sprite_index_slots_update f6 s) = slot_state s"
  "slot_state (sprite_index_data_update f7 s) = slot_state s"
  "slot_state (spatial_hash_update f8 s) = slot_state s"
  "slot_state (deferred_sprites_update f9 s) = slot_state s"
  "slot_state (idx_capacity_update g3 s) = slot_state s"
  by (simp_all add: slot_state_def)

lemma ss_defer: "slot_state (snd (defer_sprite r s)) = slot_state s"
  by (simp add: defer_sprite_def ss_fields split: option.split)

lemma ss_write_texture: "slot_state (snd (write_texture sprite s)) = slot_state s"
  by (simp add: write_texture_def ss_array_set split: option.split)

lemma ss_update_all: "slot_state (snd (update_all sprite s)) = slot_state s"
  by (simp add: update_all_def ss_and_then ss_array_set ss_defer ss_write_texture split: option.split)

lemma ss_grow_index: "slot_state (snd (grow_index_buffer s)) = slot_state s"
  by (simp add: grow_index_buffer_def slot_state_def Let_def)

lemma ss_hash:
  "slot_state (insert_object_for_box r s) = slot_state s"
  "slot_state (remove_object r s) = slot_state s"
  by (simp_all add: insert_object_for_box_def remove_object_def ss_fields split: option.split)

lemma fst_next_slot:
  "fst (next_slot s) =
     (case sprite_buffer_free_slots s of [] \<Rightarrow> sprite_buffer_slots s | slot # rest \<Rightarrow> slot)"
  by (simp add: next_slot_def Let_def split: list.split)

lemma ss_grow: "slot_state (grow_sprite_buffers s) = slot_state s"
  by (simp add: grow_sprite_buffers_def slot_state_def Let_def)

lemma ss_next_slot:
  "slot_state (snd (next_slot s)) =
     (sprite_slot s,
      tl (sprite_buffer_free_slots s),
      (if sprite_buffer_free_slots s = [] then sprite_buffer_slots s + 1 else sprite_buffer_slots s))"
  by (cases "sprite_buffer_free_slots s") (simp_all add: next_slot_def Let_def ss_grow, simp_all add: slot_state_def)

lemma ss_append:
  assumes "map_of (sprite_slot s) (ident sprite) = None"
  shows "slot_state (snd (SpriteList_append sprite s)) =
     (AList.update (ident sprite) (fst (next_slot s)) (sprite_slot s),
      tl (sprite_buffer_free_slots s),
      (if sprite_buffer_free_slots s = [] then sprite_buffer_slots s + 1 else sprite_buffer_slots s))"
proof -
  have "slot_state (snd (SpriteList_append sprite s)) =
      slot_state ((snd (next_slot s))
        \<lparr>sprite_slot := AList.update (ident sprite) (fst (next_slot s)) (sprite_slot (snd (next_slot s)))\<rparr>)"
    using assms
    by (simp add: SpriteList_append_def case_prod_beta Let_def ss_and_then ss_update_all
        ss_grow_index ss_array_set ss_hash ss_fields)
  also have "\<dots> = (AList.update (ident sprite) (fst (next_slot s)) (sprite_slot s),
      tl (sprite_buffer_free_slots s),
      (if sprite_buffer_free_slots s = [] then sprite_buffer_slots s + 1 else sprite_buffer_slots s))"
    using ss_next_slot [of s] by (simp add: slot_state_def)
  finally show ?thesis .
qed

lemma ss_insert:
  assumes "ident sprite \<notin> set (sprite_list s)"
  shows "slot_state (snd (SpriteList_insert index sprite s)) =
     (AList.update (ident sprite) (fst (next_slot s)) (sprite_slot s),
      tl (sprite_buffer_free_slots s),
      (if sprite_buffer_free_slots s = [] then sprite_buffer_slots s + 1 else sprite_buffer_slots s))"
proof -
  let ?s1 = "s\<lparr>sprite_list := py_insert index (ident sprite) (sprite_list s),
               registered := registered s @ [ident sprite]\<rparr>"
  have "slot_state (snd (SpriteList_insert index sprite s)) =
      slot_state ((snd (next_slot ?s1))
        \<lparr>sprite_slot := AList.update (ident sprite) (fst (next_slot ?s1)) (sprite_slot (snd (next_slot ?s1)))\<rparr>)"
    using assms
    by (simp add: SpriteList_insert_def case_prod_beta Let_def ss_and_then ss_update_all
        ss_grow_index ss_hash ss_fields)
  also have "\<dots> = (AList.update (ident sprite) (fst (next_slot s)) (sprite_slot s),
      tl (sprite_buffer_free_slots s),
      (if sprite_buffer_free_slots s = [] then sprite_buffer_slots s + 1 else sprite_buffer_slots s))"
    using ss_next_slot [of ?s1] by (simp add: slot_state_def fst_next_slot split: list.split)
  finally show ?thesis .
qed

lemma free_slots_remove:
  assumes "map_of (sprite_slot s) r = Some slot" and "r \<in> set (sprite_list s)"
    and "r \<in> set (registered s)"
  shows "sprite_buffer_free_slots (snd (SpriteList_remove r s)) = sprite_buffer_free_slots s @ [slot]"
  using assms by (simp add: SpriteList_remove_def Let_def remove_object_def split: option.split)


lemma grow_doubles:
  assumes "buf_capacity s \<le> sprite_buffer_slots s"
  shows "buf_capacity (grow_sprite_buffers s) = 2 * buf_capacity s"
    and "take (length (sprite_pos_data s)) (sprite_pos_data (grow_sprite_buffers s)) = sprite_pos_data s"
    and "take (length (sprite_size_data s)) (sprite_size_data (grow_sprite_buffers s)) = sprite_size_data s"
    and "take (length (sprite_angle_data s)) (sprite_angle_data (grow_sprite_buffers s)) = sprite_angle_data s"
    and "take (length (sprite_color_data s)) (sprite_color_data (grow_sprite_buffers s)) = sprite_color_data s"
    and "take (length (sprite_texture_data s)) (sprite_texture_data (grow_sprite_buffers s)) = sprite_texture_data s"
  using assms by (simp_all add: grow_sprite_buffers_def Let_def)

lemma grow_below_capacity:
  "sprite_buffer_slots s < buf_capacity s \<Longrightarrow> grow_sprite_buffers s = s"
  by (simp add: grow_sprite_buffers_def)

lemma snd_next_slot_fresh:
  "sprite_buffer_free_slots s = [] \<Longrightarrow>
   snd (next_slot s) = grow_sprite_buffers (s\<lparr>sprite_buffer_slots := sprite_buffer_slots s + 1\<rparr>)"
  by (simp add: next_slot_def Let_def)

text \<open>
  C5: the data arrays are sized to the capacity, and the pool grows by doubling. After
  construction and after any sequence of operations (whether they raise or not) the
  position and size arrays hold two entries per unit of capacity, the angle and texture
  arrays one and the colour array four. When the number of used buffer slots has reached
  the capacity, \<open>grow_sprite_buffers\<close> doubles the capacity and extends every array, the old
  contents staying in front; this is what a fresh allocation in \<open>next_slot\<close> does once the
  incremented slot count reaches the capacity. Below the capacity nothing changes.
\<close>

theorem buffers_follow_capacity:
  "buffers_sized (run_ops ops (snd (snd (SpriteList_init eng heap use_spatial capacity)))) \<and>
   (buf_capacity s \<le> sprite_buffer_slots s \<longrightarrow>
      buf_capacity (grow_sprite_buffers s) = 2 * buf_capacity s \<and>
      take (length (sprite_pos_data s)) (sprite_pos_data (grow_sprite_buffers s)) = sprite_pos_data s \<and>
      take (length (sprite_size_data s)) (sprite_size_data (grow_sprite_buffers s)) = sprite_size_data s \<and>
      take (length (sprite_angle_data s)) (sprite_angle_data (grow_sprite_buffers s)) = sprite_angle_data s \<and>
      take (length (sprite_color_data s)) (sprite_color_data (grow_sprite_buffers s)) = sprite_color_data s \<and>
      take (length (sprite_texture_data s)) (sprite_texture_data (grow_sprite_buffers s))
        = sprite_texture_data s) \<and>
   (sprite_buffer_slots s < buf_capacity s \<longrightarrow> grow_sprite_buffers s = s) \<and>
   buffers_sized (grow_sprite_buffers s) = buffers_sized s \<and>
   (sprite_buffer_free_slots s = [] \<longrightarrow> buf_capacity s \<le> sprite_buffer_slots s + 1 \<longrightarrow>
      buf_capacity (snd (next_slot s)) = 2 * buf_capacity s \<and>
      take (length (sprite_pos_data s)) (sprite_pos_data (snd (next_slot s))) = sprite_pos_data s \<and>
      take (length (sprite_size_data s)) (sprite_size_data (snd (next_slot s))) = sprite_size_data s \<and>
      take (length (sprite_angle_data s)) (sprite_angle_data (snd (next_slot s))) = sprite_angle_data s \<and>
      take (length (sprite_color_data s)) (sprite_color_data (snd (next_slot s))) = sprite_color_data s \<and>
      take (length (sprite_texture_data s)) (sprite_texture_data (snd (next_slot s)))
        = sprite_texture_data s)"
proof (intro conjI impI)
  show "buffers_sized (run_ops ops (snd (snd (SpriteList_init eng heap use_spatial capacity))))"
    by (simp add: bs_run_ops bs_init)
  show "buffers_sized (grow_sprite_buffers s) = buffers_sized s"
    by (rule bs_grow)
next
  assume "sprite_buffer_slots s < buf_capacity s"
  then show "grow_sprite_buffers s = s"
    by (rule grow_below_capacity)
next
  assume full: "buf_capacity s \<le> sprite_buffer_slots s"
  show "buf_capacity (grow_sprite_buffers s) = 2 * buf_capacity s"
    and "take (length (sprite_pos_data s)) (sprite_pos_data (grow_sprite_buffers s)) = sprite_pos_data s"
    and "take (length (sprite_size_data s)) (sprite_size_data (grow_sprite_buffers s)) = sprite_size_data s"
    and "take (length (sprite_angle_data s)) (sprite_angle_data (grow_sprite_buffers s)) = sprite_angle_data s"
    and "take (length (sprite_color_data s)) (sprite_color_data (grow_sprite_buffers s)) = sprite_color_data s"
    and "take (length (sprite_texture_data s)) (sprite_texture_data (grow_sprite_buffers s))
        = sprite_texture_data s"
    using grow_doubles [OF full] by simp_all
next
  assume empty: "sprite_buffer_free_slots s = []"
    and full: "buf_capacity s \<le> sprite_buffer_slots s + 1"
  let ?s1 = "s\<lparr>sprite_buffer_slots := sprite_buffer_slots s + 1\<rparr>"
  have full1: "buf_capacity ?s1 \<le> sprite_buffer_slots ?s1"
    using full by simp
  show "buf_capacity (snd (next_slot s)) = 2 * buf_capacity s"
    and "take (length (sprite_pos_data s)) (sprite_pos_data (snd (next_slot s))) = sprite_pos_data s"
    and "take (length (sprite_size_data s)) (sprite_size_data (snd (next_slot s))) = sprite_size_data s"
    and "take (length (sprite_angle_data s)) (sprite_angle_data (snd (next_slot s))) = sprite_angle_data s"
    and "take (length (sprite_color_data s)) (sprite_color_data (snd (next_slot s))) = sprite_color_data s"
    and "take (length (sprite_texture_data s)) (sprite_texture_data (snd (next_slot s)))
        = sprite_texture_data s"
    using grow_doubles [OF full1] by (simp_all add: snd_next_slot_fresh [OF empty])
qed

theorem buffers_follow_capacity_witness:
  "buf_capacity ((two_inserts None)\<lparr>sprite_buffer_slots := 4\<rparr>)
     \<le> sprite_buffer_slots ((two_inserts None)\<lparr>sprite_buffer_slots := 4\<rparr>) \<and>
   buf_capacity (grow_sprite_buffers ((two_inserts None)\<lparr>sprite_buffer_slots := 4\<rparr>)) = 8 \<and>
   sprite_buffer_slots (two_inserts None) < buf_capacity (two_inserts None) \<and>
   grow_sprite_buffers (two_inserts None) = two_inserts None \<and>
   sprite_buffer_free_slots (small_list None) = [] \<and>
   buf_capacity (small_list None) \<le> sprite_buffer_slots (small_list None) + 1 \<and>
   buf_capacity (snd (next_slot (small_list None))) = 2 \<and>
   buffers_sized (two_inserts None)"
proof -
  have h: "buf_capacity (two_inserts None) = 4" "sprite_buffer_slots (two_inserts None) = 2"
    "sprite_buffer_free_slots (small_list None) = []"
    "buf_capacity (small_list None) = 1" "sprite_buffer_slots (small_list None) = 0"
    by code_simp+
  show ?thesis
    using h
      buffers_follow_capacity [of "[Insert 0 sprite_A, Insert 5 sprite_B]" Ready "\<lambda>r. sprite_A"
        None 1 "(two_inserts None)\<lparr>sprite_buffer_slots := 4\<rparr>"]
      buffers_follow_capacity [of "[]" Ready "\<lambda>r. sprite_A" None 1 "two_inserts None"]
      buffers_follow_capacity [of "[]" Ready "\<lambda>r. sprite_A" None 1 "small_list None"]
    by (simp add: two_inserts_def small_list_def)
qed

text \<open>
  C4: buffer slots are reused through a queue of free slots. \<open>remove\<close> appends the slot of
  the removed sprite at the end of the queue. An allocation takes the slot at the front
  of the queue, the oldest freed one, and leaves the slot counter as it is; only with an
  empty queue does it hand out the counter's value as a fresh slot and increment the
  counter. \<open>append\<close> and \<open>insert\<close> give the new sprite the slot at the front of the queue.
\<close>

theorem free_slots_are_reused_first:
  "(map_of (sprite_slot s) r = Some slot \<longrightarrow> r \<in> set (sprite_list s) \<longrightarrow>
      r \<in> set (registered s) \<longrightarrow>
      sprite_buffer_free_slots (snd (SpriteList_remove r s)) = sprite_buffer_free_slots s @ [slot]) \<and>
   (sprite_buffer_free_slots s = oldest # rest \<longrightarrow>
      next_slot s = (oldest, s\<lparr>sprite_buffer_free_slots := rest\<rparr>)) \<and>
   (sprite_buffer_free_slots s = [] \<longrightarrow>
      fst (next_slot s) = sprite_buffer_slots s \<and>
      sprite_buffer_slots (snd (next_slot s)) = sprite_buffer_slots s + 1 \<and>
      sprite_buffer_free_slots (snd (next_slot s)) = []) \<and>
   (sprite_buffer_free_slots s = oldest # rest \<longrightarrow> map_of (sprite_slot s) (ident sprite) = None \<longrightarrow>
      map_of (sprite_slot (snd (SpriteList_append sprite s))) (ident sprite) = Some oldest \<and>
      sprite_buffer_free_slots (snd (SpriteList_append sprite s)) = rest \<and>
      sprite_buffer_slots (snd (SpriteList_append sprite s)) = sprite_buffer_slots s) \<and>
   (sprite_buffer_free_slots s = oldest # rest \<longrightarrow> ident sprite \<notin> set (sprite_list s) \<longrightarrow>
      map_of (sprite_slot (snd (SpriteList_insert index sprite s))) (ident sprite) = Some oldest \<and>
      sprite_buffer_free_slots (snd (SpriteList_insert index sprite s)) = rest \<and>
      sprite_buffer_slots (snd (SpriteList_insert index sprite s)) = sprite_buffer_slots s)"
proof (intro conjI impI)
  assume "map_of (sprite_slot s) r = Some slot" and "r \<in> set (sprite_list s)"
    and "r \<in> set (registered s)"
  then show "sprite_buffer_free_slots (snd (SpriteList_remove r s)) = sprite_buffer_free_slots s @ [slot]"
    by (rule free_slots_remove)
next
  assume "sprite_buffer_free_slots s = oldest # rest"
  then show "next_slot s = (oldest, s\<lparr>sprite_buffer_free_slots := rest\<rparr>)"
    by (simp add: next_slot_def)
next
  assume empty: "sprite_buffer_free_slots s = []"
  then show "fst (next_slot s) = sprite_buffer_slots s"
    by (simp add: fst_next_slot)
  from empty show "sprite_buffer_slots (snd (next_slot s)) = sprite_buffer_slots s + 1"
    and "sprite_buffer_free_slots (snd (next_slot s)) = []"
    using ss_next_slot [of s] by (simp_all add: slot_state_def)
next
  assume queue: "sprite_buffer_free_slots s = oldest # rest"
    and new: "map_of (sprite_slot s) (ident sprite) = None"
  show "map_of (sprite_slot (snd (SpriteList_append sprite s))) (ident sprite) = Some oldest"
    and "sprite_buffer_free_slots (snd (SpriteList_append sprite s)) = rest"
    and "sprite_buffer_slots (snd (SpriteList_append sprite s)) = sprite_buffer_slots s"
    using ss_append [OF new] queue
    by (simp_all add: slot_state_def fst_next_slot update_conv')
next
  assume queue: "sprite_buffer_free_slots s = oldest # rest"
    and new: "ident sprite \<notin> set (sprite_list s)"
  show "map_of (sprite_slot (snd (SpriteList_insert index sprite s))) (ident sprite) = Some oldest"
    and "sprite_buffer_free_slots (snd (SpriteList_insert index sprite s)) = rest"
    and "sprite_buffer_slots (snd (SpriteList_insert index sprite s)) = sprite_buffer_slots s"
    using ss_insert [OF new, of index] queue
    by (simp_all add: slot_state_def fst_next_slot update_conv')
qed

theorem free_slots_are_reused_first_witness:
  "map_of (sprite_slot two_appends) (ident sprite_A) = Some 0 \<and>
   ident sprite_A \<in> set (sprite_list two_appends) \<and>
   ident sprite_A \<in> set (registered two_appends) \<and>
   sprite_buffer_free_slots (snd (SpriteList_remove (ident sprite_A) two_appends))
     = sprite_buffer_free_slots two_appends @ [0] \<and>
   sprite_buffer_free_slots two_appends = [] \<and>
   fst (next_slot two_appends) = sprite_buffer_slots two_appends \<and>
   sprite_buffer_free_slots two_freed = [0, 1] \<and>
   next_slot two_freed = (0, two_freed\<lparr>sprite_buffer_free_slots := [1]\<rparr>) \<and>
   map_of (sprite_slot two_freed) (ident sprite_B) = None \<and>
   ident sprite_B \<notin> set (sprite_list two_freed) \<and>
   map_of (sprite_slot (snd (SpriteList_append sprite_B two_freed))) (ident sprite_B) = Some 0 \<and>
   sprite_buffer_free_slots (snd (SpriteList_append sprite_B two_freed)) = [1] \<and>
   map_of (sprite_slot (snd (SpriteList_insert 0 sprite_B two_freed))) (ident sprite_B) = Some 0 \<and>
   sprite_buffer_slots (snd (SpriteList_insert 0 sprite_B two_freed)) = sprite_buffer_slots two_freed"
proof -
  have h: "map_of (sprite_slot two_appends) (ident sprite_A) = Some 0"
    "ident sprite_A \<in> set (sprite_list two_appends)"
    "ident sprite_A \<in> set (registered two_appends)"
    "sprite_buffer_free_slots two_appends = []"
    "sprite_buffer_free_slots two_freed = [0, 1]"
    "map_of (sprite_slot two_freed) (ident sprite_B) = None"
    "ident sprite_B \<notin> set (sprite_list two_freed)"
    by code_simp+
  show ?thesis
    using h
      free_slots_are_reused_first [of two_appends "ident sprite_A" 0 0 "[1]" sprite_B 0]
      free_slots_are_reused_first [of two_freed "ident sprite_A" 0 0 "[1]" sprite_B 0]
    by simp
qed

text \<open>
  C7: a failure of the engine during construction is only printed. When \<^verbatim>\<open>get_window\<close>
  raises, or a context call of the deferred initialisation raises, \<^verbatim>\<open>__init__\<close> prints
  that exception, lets no exception out and returns the list, which is not initialised.
  With a working engine nothing is printed and the list is initialised.
\<close>

theorem init_failure_is_printed:
  "SpriteList_init (NoWindow e) heap use_spatial capacity
     = ([e], None, fresh_SpriteList use_spatial capacity) \<and>
   SpriteList_init (ContextFails e) heap use_spatial capacity
     = ([e], None, (fresh_SpriteList use_spatial capacity)\<lparr>ctx := True\<rparr>) \<and>
   \<not> initialized (fresh_SpriteList use_spatial capacity) \<and>
   SpriteList_init Ready heap use_spatial capacity
     = ([], None, (fresh_SpriteList use_spatial capacity)
          \<lparr>initialized := True, ctx := True, deferred_sprites := None\<rparr>) \<and>
   fst (snd (SpriteList_init eng heap use_spatial capacity)) = None"
proof -
  have "fst (snd (SpriteList_init eng heap use_spatial capacity)) = None"
    by (simp add: SpriteList_init_def Let_def split: option.splits prod.splits)
  moreover have "\<not> initialized (fresh_SpriteList use_spatial capacity)"
    by (simp add: fresh_SpriteList_def Let_def)
  moreover have "SpriteList_init Ready heap use_spatial capacity
     = ([], None, (fresh_SpriteList use_spatial capacity)
          \<lparr>initialized := True, ctx := True, deferred_sprites := None\<rparr>)"
    by (simp add: SpriteList_init_def get_window_def init_deferred_def and_then_def
        fresh_SpriteList_def Let_def)
  ultimately show ?thesis
    by (simp add: SpriteList_init_def get_window_def init_deferred_def)
qed

text \<open>
  C10: the claim is that every sequence of \<open>append\<close>, \<open>insert\<close>, \<open>remove\<close> and \<open>pop\<close>
  keeps the sprite list, the slot dictionary and the used part of the index buffer at the
  same count. \<open>insert\<close> puts the new slot at the raw index into the index array, which is
  as long as the capacity: after \<^verbatim>\<open>insert(5, B)\<close> on a list of one sprite the slot falls
  off the end of the array. \<open>remove\<close> of that sprite then takes it out of the list, the
  dictionary and into the free slots, and raises at \<^verbatim>\<open>array.remove\<close> before it
  decrements the counter.
\<close>

theorem remove_after_far_insert_breaks_counts:
  "counts_agree (small_list None) \<and>
   counts_agree (two_inserts None) \<and>
   \<not> counts_agree (run_ops [Remove (ident sprite_B)] (two_inserts None)) \<and>
   length (sprite_list (run_ops [Remove (ident sprite_B)] (two_inserts None))) = 1 \<and>
   length (sprite_slot (run_ops [Remove (ident sprite_B)] (two_inserts None))) = 1 \<and>
   sprite_index_slots (run_ops [Remove (ident sprite_B)] (two_inserts None)) = 2"
  by code_simp

text \<open>
  The two guarded raises do what they should: \<open>append\<close> of a sprite that has a slot and
  \<open>remove\<close> of a sprite that has none raise ValueError and leave the list as it was.
\<close>

lemma append_with_slot_raises:
  "map_of (sprite_slot s) (ident sprite) \<noteq> None \<Longrightarrow>
   SpriteList_append sprite s = (Some (ValueError ''Sprite already in SpriteList''), s)"
  by (simp add: SpriteList_append_def)

lemma remove_without_slot_raises:
  "map_of (sprite_slot s) r = None \<Longrightarrow>
   SpriteList_remove r s = (Some (ValueError ''Sprite is not in the SpriteList''), s)"
  by (simp add: SpriteList_remove_def)

text \<open>
  C9: the claim is that \<open>remove\<close> raises ValueError exactly when the sprite has no slot,
  and leaves the list unchanged when it raises. After the two inserts sprite B has slot 1,
  and \<open>remove\<close> raises the ValueError of \<^verbatim>\<open>array.remove\<close>, having changed the list.
\<close>

theorem remove_raises_with_slot:
  "map_of (sprite_slot (two_inserts None)) (ident sprite_B) = Some 1 \<and>
   fst (SpriteList_remove (ident sprite_B) (two_inserts None))
     = Some (ValueError ''array.remove(x): x not in list'') \<and>
   snd (SpriteList_remove (ident sprite_B) (two_inserts None)) \<noteq> two_inserts None \<and>
   sprite_list (snd (SpriteList_remove (ident sprite_B) (two_inserts None))) = [ident sprite_A] \<and>
   sprite_buffer_free_slots (snd (SpriteList_remove (ident sprite_B) (two_inserts None))) = [1]"
  by code_simp

text \<open>
  C6: the claim is that with a spatial index a sprite is in the index if and only if it
  is in the list, after every operation. The \<open>remove\<close> above raises before it reaches
  \<^verbatim>\<open>spatial_hash.remove_object\<close>: sprite B is gone from the list and still in the index.
\<close>

theorem failed_remove_leaves_sprite_in_hash:
  "hash_agrees (small_list (Some True)) \<and>
   hash_agrees (two_inserts (Some True)) \<and>
   \<not> hash_agrees (snd (SpriteList_remove (ident sprite_B) (two_inserts (Some True)))) \<and>
   sprite_list (snd (SpriteList_remove (ident sprite_B) (two_inserts (Some True))))
     = [ident sprite_A] \<and>
   spatial_hash (snd (SpriteList_remove (ident sprite_B) (two_inserts (Some True))))
     = Some [ident sprite_A, ident sprite_B]"
  by code_simp

end
